theory Spec2Isabelle
  imports Complex_Main "HOL-Library.Word"
begin

section \<open>Values of the Python program\<close>

text \<open>
  The repository drives a BK1739 power supply over a serial line
  (\<^verbatim>\<open>powersupply.py\<close>) and electromagnetic coils attached to it
  (\<^verbatim>\<open>coil.py\<close>).

  Conventions of the embedding:
  \<^item> a Python \<^verbatim>\<open>bytearray\<close> is a list of bytes, a Python \<^verbatim>\<open>str\<close> is the list of
    its Unicode code points;
  \<^item> a Python \<^verbatim>\<open>float\<close> is the real number it stands for; a real zero is the float
    \<open>+0.0\<close>, and infinities and NaN are outside the model. Where the program compares
    floats with a margin the arithmetic is read exactly. Where it tests the results of
    float arithmetic for equality, in \<^verbatim>\<open>Coil.set_coil_field\<close>, every operation is
    followed by the rounding to the nearest double, and the float \<open>-0.0\<close> that the
    reals do not have is a case of its own;
  \<^item> a method takes the object and returns an outcome together with the object as the
    method left it, also when the method raises;
  \<^item> the supply behind the serial port is a parameter: a function from the state of
    the supply and the bytes written to the bytes waiting in the input buffer when
    \<^verbatim>\<open>_write\<close> starts to read, and the next state of the supply. Failures of the
    transport itself (\<^verbatim>\<open>serial.SerialException\<close>) are outside the model.
\<close>

type_synonym byte = "8 word"

type_synonym str = "nat list"

definition py_str :: "string \<Rightarrow> str" where
  "py_str s = map of_char s"

text \<open>\<^verbatim>\<open>bytearray(s, 'utf-8')\<close> for a string of ASCII code points, which is what every
  command of the program is: UTF-8 encodes such a code point as the byte of the same
  value.\<close>

definition ascii_bytes :: "str \<Rightarrow> byte list" where
  "ascii_bytes s = map of_nat s"

text \<open>What \<^verbatim>\<open>_write\<close> returns: the empty bytearray, a float or a string.\<close>

datatype response = Empty | Numeric real | Text str

text \<open>
  The exceptions of the program. The first four are the \<^verbatim>\<open>Exception(...)\<close> values the
  source raises, told apart by their message:
  \<^item> \<open>DeviceSyntaxError\<close>: "Syntax Error. Command not a number or value too high for the
    power supply";
  \<^item> \<open>DeviceOutOfRange\<close>: "Input number out of range! (Likly too small. Minimum is 0.01V
    or 0.1mA)";
  \<^item> \<open>StrangeMessage m\<close>: "Strange message receved: %s" formatted with \<open>m\<close>;
  \<^item> \<open>IncorrectMode txt\<close>: "Incorrect mode! Supply is in txt mode.".

  The others are raised by the interpreter: \<open>UnicodeDecodeError\<close> by
  \<^verbatim>\<open>bytearray.decode\<close>, \<open>TypeError\<close> by \<^verbatim>\<open>len\<close> of a float, \<open>AttributeError a\<close> by the
  lookup of a missing attribute \<open>a\<close>, \<open>ZeroDivisionError\<close> by a float division by zero,
  \<open>PortNotOpen\<close> by a write to a serial port that is not open.
\<close>

datatype exn =
    DeviceSyntaxError
  | DeviceOutOfRange
  | StrangeMessage response
  | IncorrectMode string
  | UnicodeDecodeError
  | TypeError
  | AttributeError string
  | ZeroDivisionError
  | PortNotOpen

text \<open>A call returns a value, raises, or never returns (\<open>Blocked\<close>: a blocking read on a
  port where no further byte arrives).\<close>

datatype 'a outcome = Blocked | Raised exn | Returned 'a

definition bind :: "'a outcome \<times> 's \<Rightarrow> ('a \<Rightarrow> 's \<Rightarrow> 'b outcome \<times> 's) \<Rightarrow> 'b outcome \<times> 's" where
  "bind m f =
     (case m of
        (Returned a, s) \<Rightarrow> f a s
      | (Raised e, s) \<Rightarrow> (Raised e, s)
      | (Blocked, s) \<Rightarrow> (Blocked, s))"

section \<open>The power supply\<close>

subsection \<open>Error messages of the supply\<close>

text \<open>\<^verbatim>\<open>PowerSupply.parseErrorMessages\<close>: every branch is a \<^verbatim>\<open>raise\<close>. A message that is
  not a string (a float, the empty bytearray) compares unequal to both strings.\<close>

definition parseErrorMessages :: "response \<Rightarrow> unit outcome" where
  "parseErrorMessages message =
     (if message = Text (py_str ''Syntax Error'') then Raised DeviceSyntaxError
      else if message = Text (py_str ''Out Of Range'') then Raised DeviceOutOfRange
      else Raised (StrangeMessage message))"

subsection \<open>The serial port and the supply behind it\<close>

text \<open>
  \<open>portAddress\<close> and \<open>portOpen\<close> are the attributes of \<^verbatim>\<open>PowerSupply\<close>. The attribute
  \<^verbatim>\<open>ser\<close> is the serial connection: \<open>device\<close> is the state of the supply at its other
  end and \<open>sent\<close> the byte strings handed to \<^verbatim>\<open>ser.write\<close> so far, oldest first.
\<close>

record 'd PowerSupply =
  portAddress :: str
  portOpen :: bool
  device :: 'd
  sent :: "byte list list"

text \<open>
  What the program takes from outside: \<open>respond\<close> is the supply (state and bytes written
  give the bytes in the input buffer and the next state), \<open>decimal\<close> gives the value of
  a non-ASCII code point that the Unicode database of the interpreter classes as a
  decimal digit.
\<close>

record 'd runtime =
  respond :: "'d \<Rightarrow> byte list \<Rightarrow> byte list \<times> 'd"
  decimal :: "nat \<Rightarrow> nat option"

definition PowerSupply_init :: "str \<Rightarrow> 'd \<Rightarrow> 'd PowerSupply" where
  "PowerSupply_init address dev =
     \<lparr>portAddress = address, portOpen = False, device = dev, sent = []\<rparr>"

definition open_port :: "'d PowerSupply \<Rightarrow> 'd PowerSupply" where
  "open_port s = s\<lparr>portOpen := True\<rparr>"

definition close_port :: "'d PowerSupply \<Rightarrow> 'd PowerSupply" where
  "close_port s = s\<lparr>portOpen := False\<rparr>"

subsection \<open>Extracting the message from the input buffer\<close>

text \<open>The inner loop of \<^verbatim>\<open>_write\<close>: bytes are appended to \<open>out\<close> until the stop byte
  \<open>0x11\<close> or a carriage return. \<^verbatim>\<open>ser.read()\<close> on an empty buffer blocks.\<close>

fun read_message :: "byte list \<Rightarrow> byte list \<Rightarrow> byte list option" where
  "read_message [] out = None"
| "read_message (b # bs) out =
     (if b \<noteq> 0x11 \<and> b \<noteq> 0x0D then read_message bs (out @ [b]) else Some out)"

text \<open>The outer loop: bytes before the start byte \<open>0x13\<close> are dropped; after the message
  the input buffer is reset, which ends the loop.\<close>

fun read_reply :: "byte list \<Rightarrow> byte list option" where
  "read_reply [] = Some []"
| "read_reply (b # bs) = (if b = 0x13 then read_message bs [] else read_reply bs)"

subsection \<open>Decoding the message\<close>

definition continuation :: "nat \<Rightarrow> bool" where
  "continuation b \<longleftrightarrow> 0x80 \<le> b \<and> b \<le> 0xBF"

text \<open>\<^verbatim>\<open>out.decode("utf-8")\<close> on the values of the bytes: \<open>None\<close> is UnicodeDecodeError.
  The decoder is strict: no overlong form, no surrogate, nothing above U+10FFFF.\<close>

fun utf8_decode :: "nat list \<Rightarrow> str option" where
  "utf8_decode [] = Some []"
| "utf8_decode (b # bs) =
     (if b < 0x80 then map_option ((#) b) (utf8_decode bs)
      else if 0xC2 \<le> b \<and> b \<le> 0xDF then
        (case bs of
           b1 # r \<Rightarrow>
             if continuation b1
             then map_option ((#) ((b - 0xC0) * 64 + (b1 - 0x80))) (utf8_decode r)
             else None
         | _ \<Rightarrow> None)
      else if 0xE0 \<le> b \<and> b \<le> 0xEF then
        (case bs of
           b1 # b2 # r \<Rightarrow>
             if (if b = 0xE0 then 0xA0 else 0x80) \<le> b1
                \<and> b1 \<le> (if b = 0xED then 0x9F else 0xBF) \<and> continuation b2
             then map_option
                    ((#) ((b - 0xE0) * 4096 + (b1 - 0x80) * 64 + (b2 - 0x80)))
                    (utf8_decode r)
             else None
         | _ \<Rightarrow> None)
      else if 0xF0 \<le> b \<and> b \<le> 0xF4 then
        (case bs of
           b1 # b2 # b3 # r \<Rightarrow>
             if (if b = 0xF0 then 0x90 else 0x80) \<le> b1
                \<and> b1 \<le> (if b = 0xF4 then 0x8F else 0xBF)
                \<and> continuation b2 \<and> continuation b3
             then map_option
                    ((#) ((b - 0xF0) * 262144 + (b1 - 0x80) * 4096
                          + (b2 - 0x80) * 64 + (b3 - 0x80)))
                    (utf8_decode r)
             else None
         | _ \<Rightarrow> None)
      else None)"

text \<open>The value of a decimal digit: the ASCII digits, and beyond ASCII what the
  interpreter's table says. \<^verbatim>\<open>\d\<close> of \<^verbatim>\<open>re\<close> matches exactly the code points with a
  value.\<close>

definition decimal_value :: "(nat \<Rightarrow> nat option) \<Rightarrow> nat \<Rightarrow> nat option" where
  "decimal_value nd c =
     (if 48 \<le> c \<and> c \<le> 57 then Some (c - 48) else if c < 128 then None else nd c)"

definition is_digit :: "(nat \<Rightarrow> nat option) \<Rightarrow> nat \<Rightarrow> bool" where
  "is_digit nd c \<longleftrightarrow> decimal_value nd c \<noteq> None"

text \<open>The pattern \<^verbatim>\<open>\d+\.\d\<close> tried at the start of \<open>s\<close>: \<^verbatim>\<open>\d+\<close> takes the longest run of
  digits; giving a digit back cannot help, since the next item must be the point
  (code point 46).\<close>

definition match_here :: "(nat \<Rightarrow> nat option) \<Rightarrow> str \<Rightarrow> str option" where
  "match_here nd s =
     (let ds = takeWhile (is_digit nd) s in
      case dropWhile (is_digit nd) s of
        p # d # _ \<Rightarrow> if ds \<noteq> [] \<and> p = 46 \<and> is_digit nd d then Some (ds @ [p, d]) else None
      | _ \<Rightarrow> None)"

text \<open>\<^verbatim>\<open>re.search\<close>: the pattern is tried at each position from the left;
  the result is \<^verbatim>\<open>temp.group()\<close>, or \<open>None\<close> where there is no match.\<close>

fun re_search :: "(nat \<Rightarrow> nat option) \<Rightarrow> str \<Rightarrow> str option" where
  "re_search nd [] = None"
| "re_search nd (c # cs) =
     (case match_here nd (c # cs) of Some t \<Rightarrow> Some t | None \<Rightarrow> re_search nd cs)"

definition digit_val :: "(nat \<Rightarrow> nat option) \<Rightarrow> nat \<Rightarrow> nat" where
  "digit_val nd c = (case decimal_value nd c of Some v \<Rightarrow> v | None \<Rightarrow> 0)"

definition int_of_digits :: "(nat \<Rightarrow> nat option) \<Rightarrow> str \<Rightarrow> nat" where
  "int_of_digits nd ds = foldl (\<lambda>a c. 10 * a + digit_val nd c) 0 ds"

text \<open>\<^verbatim>\<open>float(temp.group())\<close> for a token of the pattern: digits, the point, one digit.\<close>

definition float_of_token :: "(nat \<Rightarrow> nat option) \<Rightarrow> str \<Rightarrow> real" where
  "float_of_token nd t =
     of_nat (int_of_digits nd (butlast (butlast t))) + of_nat (digit_val nd (last t)) / 10"

text \<open>The end of \<^verbatim>\<open>_write\<close>, from \<^verbatim>\<open>if not len(out)\<close> on: what is made of the
  message.\<close>

definition decode_reply :: "(nat \<Rightarrow> nat option) \<Rightarrow> byte list \<Rightarrow> response outcome" where
  "decode_reply nd out =
     (if length out = 0 then Returned Empty
      else case utf8_decode (map unat out) of
             None \<Rightarrow> Raised UnicodeDecodeError
           | Some txt \<Rightarrow>
               (case re_search nd txt of
                  Some t \<Rightarrow> Returned (Numeric (float_of_token nd t))
                | None \<Rightarrow> Returned (Text txt)))"

text \<open>\<^verbatim>\<open>PowerSupply._write\<close>.\<close>

definition PowerSupply_write ::
  "'d runtime \<Rightarrow> byte list \<Rightarrow> 'd PowerSupply \<Rightarrow> response outcome \<times> 'd PowerSupply" where
  "PowerSupply_write rt command s =
     (if \<not> portOpen s then (Raised PortNotOpen, s)
      else
        let (buffer, dev) = respond rt (device s) (command @ [0x0D]);
            s' = s\<lparr>device := dev, sent := sent s @ [command @ [0x0D]]\<rparr>
        in case read_reply buffer of
             None \<Rightarrow> (Blocked, s')
           | Some out \<Rightarrow> (decode_reply (decimal rt) out, s'))"

subsection \<open>Formatting numbers\<close>

text \<open>The \<^verbatim>\<open>%f\<close> conversion rounds the exact value to the nearest decimal of the asked
  precision, a tie to the even neighbour.\<close>

definition round_half_even :: "real \<Rightarrow> int" where
  "round_half_even x =
     (let f = \<lfloor>x\<rfloor>; d = x - of_int f in
      if d < 1 / 2 then f
      else if 1 / 2 < d then f + 1
      else if even f then f else f + 1)"

fun dec_digits :: "nat \<Rightarrow> str" where
  "dec_digits n = (if n < 10 then [48 + n] else dec_digits (n div 10) @ [48 + n mod 10])"

declare dec_digits.simps [simp del]

text \<open>\<^verbatim>\<open>'%0w.pf' % x\<close> when \<open>zero\<close> holds and \<^verbatim>\<open>'%w.pf' % x\<close> otherwise: sign, digits,
  the point (46) and \<open>p\<close> decimals, filled up to the width \<open>w\<close> with zeros (48) after
  the sign, or with spaces (32) before it.\<close>

definition format_f :: "bool \<Rightarrow> nat \<Rightarrow> nat \<Rightarrow> real \<Rightarrow> str" where
  "format_f zero w p x =
     (let k = nat (round_half_even (\<bar>x\<bar> * 10 ^ p));
          frac = dec_digits (k mod 10 ^ p);
          body = dec_digits (k div 10 ^ p)
                 @ (if p = 0 then [] else 46 # replicate (p - length frac) 48 @ frac);
          sign = (if x < 0 then [45] else []);
          fill = w - (length sign + length body)
      in if zero then sign @ replicate fill 48 @ body
         else replicate fill 32 @ sign @ body)"

subsection \<open>Operations of the supply\<close>

text \<open>\<^verbatim>\<open>PowerSupply.check_mode\<close>.\<close>

definition check_mode :: "'d runtime \<Rightarrow> 'd PowerSupply \<Rightarrow> response outcome \<times> 'd PowerSupply" where
  "check_mode rt s =
     bind (PowerSupply_write rt (ascii_bytes (py_str ''STAT?'')) s) (\<lambda>out s1.
       if out \<noteq> Text (py_str ''CV'') \<and> out \<noteq> Text (py_str ''CC'')
       then bind (parseErrorMessages out, s1) (\<lambda>_ s2. (Returned out, s2))
       else (Returned out, s1))"

text \<open>\<^verbatim>\<open>PowerSupply._automated_open\<close>: the result is \<open>initial_port_state\<close>.\<close>

definition automated_open :: "'d PowerSupply \<Rightarrow> bool \<times> 'd PowerSupply" where
  "automated_open s =
     (let initial_port_state = portOpen s
      in (initial_port_state, if \<not> initial_port_state then open_port s else s))"

text \<open>\<^verbatim>\<open>PowerSupply._automated_close\<close>.\<close>

definition automated_close :: "bool \<Rightarrow> 'd PowerSupply \<Rightarrow> 'd PowerSupply" where
  "automated_close initial_port_state s =
     (if \<not> initial_port_state \<and> portOpen s then close_port s else s)"

text \<open>\<^verbatim>\<open>len(out)\<close> on what \<^verbatim>\<open>_write\<close> returned: a float has no length.\<close>

definition py_len :: "response \<Rightarrow> nat outcome" where
  "py_len out =
     (case out of Empty \<Rightarrow> Returned 0 | Text t \<Rightarrow> Returned (length t) | Numeric x \<Rightarrow> Raised TypeError)"

text \<open>\<^verbatim>\<open>if len(out): self.parseErrorMessages(out)\<close>, the check after a setting command.\<close>

definition expect_nothing :: "response \<Rightarrow> 's \<Rightarrow> unit outcome \<times> 's" where
  "expect_nothing out s =
     bind (py_len out, s) (\<lambda>n s1. if n \<noteq> 0 then (parseErrorMessages out, s1) else (Returned (), s1))"

text \<open>\<^verbatim>\<open>if type(out) != float: self.parseErrorMessages(out)\<close>, the check after a
  query.\<close>

definition expect_float :: "response \<Rightarrow> 's \<Rightarrow> unit outcome \<times> 's" where
  "expect_float out s =
     (case out of Numeric x \<Rightarrow> (Returned (), s) | _ \<Rightarrow> (parseErrorMessages out, s))"

text \<open>\<^verbatim>\<open>out *= 1e-3\<close>: only a float can be multiplied by a float.\<close>

definition times_milli :: "response \<Rightarrow> real outcome" where
  "times_milli out =
     (case out of Numeric x \<Rightarrow> Returned (x * (1 / 10 ^ 3)) | _ \<Rightarrow> Raised TypeError)"

text \<open>\<^verbatim>\<open>PowerSupply.set_voltage\<close>.\<close>

definition set_voltage :: "'d runtime \<Rightarrow> real \<Rightarrow> 'd PowerSupply \<Rightarrow> unit outcome \<times> 'd PowerSupply" where
  "set_voltage rt voltage_value s =
     (let (initial_port_state, s0) = automated_open s;
          voltage = format_f True 5 2 voltage_value
      in bind (PowerSupply_write rt (ascii_bytes (py_str ''VOLT '' @ voltage)) s0) (\<lambda>out s1.
         bind (expect_nothing out s1) (\<lambda>_ s2.
         (Returned (), automated_close initial_port_state s2))))"

text \<open>\<^verbatim>\<open>PowerSupply.get_voltage\<close>.\<close>

definition get_voltage :: "'d runtime \<Rightarrow> 'd PowerSupply \<Rightarrow> response outcome \<times> 'd PowerSupply" where
  "get_voltage rt s =
     (let (initial_port_state, s0) = automated_open s
      in bind (check_mode rt s0) (\<lambda>mode s1.
         if mode \<noteq> Text (py_str ''CV'')
         then (Raised (IncorrectMode ''constant current''), s1)
         else
         bind (PowerSupply_write rt (ascii_bytes (py_str ''VOLT?'')) s1) (\<lambda>out s2.
         bind (expect_float out s2) (\<lambda>_ s3.
         (Returned out, automated_close initial_port_state s3)))))"

text \<open>\<^verbatim>\<open>PowerSupply.get_current\<close>: the supply answers in milliamps.\<close>

definition get_current :: "'d runtime \<Rightarrow> 'd PowerSupply \<Rightarrow> real outcome \<times> 'd PowerSupply" where
  "get_current rt s =
     (let (initial_port_state, s0) = automated_open s
      in bind (PowerSupply_write rt (ascii_bytes (py_str ''CURR?'')) s0) (\<lambda>out s1.
         bind (expect_float out s1) (\<lambda>_ s2.
         bind (times_milli out, s2) (\<lambda>amps s3.
         (Returned amps, automated_close initial_port_state s3)))))"

text \<open>\<^verbatim>\<open>PowerSupply.set_current\<close>: the supply takes milliamps.\<close>

definition set_current :: "'d runtime \<Rightarrow> real \<Rightarrow> 'd PowerSupply \<Rightarrow> unit outcome \<times> 'd PowerSupply" where
  "set_current rt current_value s =
     (let (initial_port_state, s0) = automated_open s
      in bind (check_mode rt s0) (\<lambda>mode s1.
         if mode \<noteq> Text (py_str ''CC'')
         then (Raised (IncorrectMode ''constant voltage''), s1)
         else
         let current = format_f True 5 1 (current_value * 10 ^ 3)
         in bind (PowerSupply_write rt (ascii_bytes (py_str ''CURR '' @ current)) s1) (\<lambda>out s2.
            bind (expect_nothing out s2) (\<lambda>_ s3.
            (Returned (), automated_close initial_port_state s3)))))"

text \<open>\<^verbatim>\<open>PowerSupply.set_current\<close> called with the float \<open>-0.0\<close>: the product with
  \<^verbatim>\<open>1e3\<close> is \<open>-0.0\<close> again, which \<^verbatim>\<open>'%05.1f'\<close> prints with its sign, as "-00.0".\<close>

definition set_current_minus_zero :: "'d runtime \<Rightarrow> 'd PowerSupply \<Rightarrow> unit outcome \<times> 'd PowerSupply" where
  "set_current_minus_zero rt s =
     (let (initial_port_state, s0) = automated_open s
      in bind (check_mode rt s0) (\<lambda>mode s1.
         if mode \<noteq> Text (py_str ''CC'')
         then (Raised (IncorrectMode ''constant voltage''), s1)
         else
         let current = py_str ''-00.0''
         in bind (PowerSupply_write rt (ascii_bytes (py_str ''CURR '' @ current)) s1) (\<lambda>out s2.
            bind (expect_nothing out s2) (\<lambda>_ s3.
            (Returned (), automated_close initial_port_state s3)))))"

section \<open>The coils\<close>

subsection \<open>A coil on one supply\<close>

text \<open>The attributes of \<^verbatim>\<open>Coil\<close>; \<open>coil_supply\<close> is the attribute \<^verbatim>\<open>supply\<close>. \<open>field_gain\<close> is the nominal value \<^verbatim>\<open>field_gain.n\<close> of
  the calibration constant, in Tesla per Amp.\<close>

record 'd Coil =
  coil_supply :: "'d PowerSupply"
  field_gain :: real
  maxPowerSupplyCurrent :: real
  minPowerSupplyCurrent :: real
  appliedMaxField :: real
  appliedMinField :: real
  current :: real
  coil_field :: real

text \<open>\<^verbatim>\<open>Coil.__init__\<close>, on the supply of the coil as \<^verbatim>\<open>PowerSupply(address)\<close> made it.\<close>

definition Coil_init :: "'d runtime \<Rightarrow> 'd PowerSupply \<Rightarrow> real \<Rightarrow> 'd Coil outcome \<times> 'd PowerSupply" where
  "Coil_init rt ps gain =
     bind (get_current rt ps) (\<lambda>amps ps1.
       (Returned \<lparr>coil_supply = ps1, field_gain = gain,
                  maxPowerSupplyCurrent = 9990 / 10000,
                  minPowerSupplyCurrent = 1 / 1000,
                  appliedMaxField = gain * (9990 / 10000),
                  appliedMinField = gain * (1 / 1000),
                  current = amps,
                  coil_field = amps * gain\<rparr>, ps1))"

text \<open>\<^verbatim>\<open>float('%5.4f' % current)\<close>: the decimal with four places that the format prints,
  read back as a number.\<close>

definition float_of_format_4 :: "real \<Rightarrow> real" where
  "float_of_format_4 x =
     (if x < 0 then - 1 else 1) * of_int (round_half_even (\<bar>x\<bar> * 10 ^ 4)) / 10 ^ 4"

text \<open>A method of the coil that calls a method of its supply: the supply is an attribute
  of the coil, so what the call did to it stays, whatever the outcome.\<close>

definition on_supply ::
  "('d PowerSupply \<Rightarrow> 'a outcome \<times> 'd PowerSupply) \<Rightarrow> ('d, 'z) Coil_scheme
     \<Rightarrow> 'a outcome \<times> ('d, 'z) Coil_scheme" where
  "on_supply f c = (case f (coil_supply c) of (r, ps) \<Rightarrow> (r, c\<lparr>coil_supply := ps\<rparr>))"

text \<open>The rounding of float arithmetic (IEEE 754 binary64, ties to even): the nearest
  number with 53 significant bits, and below \<open>2 ^ - 1022\<close> the nearest multiple of
  \<open>2 ^ - 1074\<close>. A result too large for a double is outside the model.\<close>

definition nearest_double :: "real \<Rightarrow> real" where
  "nearest_double x =
     (if x = 0 then 0
      else
        let e = max \<lfloor>log 2 \<bar>x\<bar>\<rfloor> (- 1022);
            ulp = power_int 2 (e - 52)
        in of_int (round_half_even (x / ulp)) * ulp)"

text \<open>\<^verbatim>\<open>Coil.set_coil_field\<close>. A float division by zero raises. The quotient, the number
  read back from the format and the product are floats: each is rounded. When the
  quotient is negative and the format prints it as "-0.0000", the current read back is
  the float \<open>-0.0\<close>: it is equal to zero in every later test, and \<^verbatim>\<open>set_current\<close>
  prints it with its sign. The message printed in the other branch goes to the terminal,
  not to the supply.\<close>

definition set_coil_field ::
  "'d runtime \<Rightarrow> real \<Rightarrow> ('d, 'z) Coil_scheme \<Rightarrow> unit outcome \<times> ('d, 'z) Coil_scheme" where
  "set_coil_field rt field_value c =
     (if field_value \<noteq> coil_field c then
        if field_gain c = 0 then (Raised ZeroDivisionError, c)
        else
          let amps = nearest_double (field_value / field_gain c);
              c1 = c\<lparr>current := nearest_double (float_of_format_4 amps)\<rparr>;
              c2 = c1\<lparr>coil_field := nearest_double (current c1 * field_gain c1)\<rparr>
          in if amps < 0 \<and> float_of_format_4 amps = 0
             then on_supply (set_current_minus_zero rt) c2
             else on_supply (set_current rt (current c2)) c2
      else (Returned (), c))"

text \<open>\<^verbatim>\<open>Coil.get_coil_field\<close>.\<close>

definition get_coil_field ::
  "'d runtime \<Rightarrow> ('d, 'z) Coil_scheme \<Rightarrow> real outcome \<times> ('d, 'z) Coil_scheme" where
  "get_coil_field rt c =
     bind (on_supply (get_current rt) c) (\<lambda>amps c1.
       let c2 = c1\<lparr>current := amps\<rparr>;
           c3 = c2\<lparr>coil_field := current c2 * field_gain c2\<rparr>
       in (Returned (coil_field c3), c3))"

subsection \<open>A coil with a correction coil\<close>

text \<open>The attributes \<^verbatim>\<open>CoilWithCorrection\<close> adds to those of \<^verbatim>\<open>Coil\<close>.
  \<open>smallCoilFieldGain\<close> is the nominal value \<^verbatim>\<open>smallCoilFieldGain.n\<close>. The attribute
  \<^verbatim>\<open>smallFieldValue\<close> is not made by \<^verbatim>\<open>__init__\<close>: it is \<open>None\<close> until a method
  assigns it.\<close>

record 'd CoilWithCorrection = "'d Coil" +
  dacName :: str
  smallCoilFieldGain :: real
  voltageGain :: real
  dacVoltage :: real
  minPowerSupplyCurrentStep :: real
  smallCoilField :: real
  net_coil_field :: real
  smallFieldValue :: "real option"

text \<open>\<^verbatim>\<open>CoilWithCorrection.__init__\<close>.\<close>

definition CoilWithCorrection_init ::
  "'d runtime \<Rightarrow> 'd PowerSupply \<Rightarrow> real \<Rightarrow> str \<Rightarrow> real
     \<Rightarrow> 'd CoilWithCorrection outcome \<times> 'd PowerSupply" where
  "CoilWithCorrection_init rt ps gain dac small_gain =
     bind (Coil_init rt ps gain) (\<lambda>c ps1.
       (Returned (Coil.extend c
          \<lparr>dacName = dac, smallCoilFieldGain = small_gain, voltageGain = 250,
           dacVoltage = 0, minPowerSupplyCurrentStep = 1 / 10000,
           smallCoilField = 0, net_coil_field = coil_field c + 0,
           smallFieldValue = None\<rparr>), ps1))"

text \<open>\<^verbatim>\<open>CoilWithCorrection.setSmallCoilField\<close>.\<close>

definition setSmallCoilField ::
  "real \<Rightarrow> 'd CoilWithCorrection \<Rightarrow> unit outcome \<times> 'd CoilWithCorrection" where
  "setSmallCoilField fieldValue c =
     (let c1 = c\<lparr>smallFieldValue := Some fieldValue\<rparr>
      in if smallCoilFieldGain c1 = 0 then (Raised ZeroDivisionError, c1)
         else
           let amps = fieldValue / smallCoilFieldGain c1
           in (Returned (), c1\<lparr>dacVoltage := amps * voltageGain c1\<rparr>))"

text \<open>\<^verbatim>\<open>CoilWithCorrection.setField\<close>. The class and its parent have no attribute
  \<^verbatim>\<open>setcoil_field\<close> (the method of the parent is \<^verbatim>\<open>set_coil_field\<close>), so the call in
  the renormalising branch raises AttributeError at the lookup. \<open>delta\<close> is the value
  just stored in \<^verbatim>\<open>self.smallFieldValue\<close>, which the test reads back. No statement of
  the method reaches the supply, so the runtime is not used.\<close>

definition setField ::
  "'d runtime \<Rightarrow> real \<Rightarrow> 'd CoilWithCorrection \<Rightarrow> unit outcome \<times> 'd CoilWithCorrection" where
  "setField rt fieldValue c =
     (let minimumcoil_fieldStep = minPowerSupplyCurrentStep c * field_gain c;
          smallCoilFieldRange = (25 / 10) * minimumcoil_fieldStep;
          coil_fieldOffset = minimumcoil_fieldStep * (35 / 10);
          maximumChangeInField = coil_fieldOffset + smallCoilFieldRange;
          minimumChangeInField = coil_fieldOffset - smallCoilFieldRange;
          delta = fieldValue - coil_field c;
          c1 = c\<lparr>smallFieldValue := Some delta\<rparr>
      in bind
           (if delta > maximumChangeInField \<or> delta < minimumChangeInField
            then (Raised (AttributeError ''setcoil_field''), c1)
            else (Returned (), c1))
           (\<lambda>_ c2.
              bind (setSmallCoilField (fieldValue - coil_field c2) c2) (\<lambda>_ c3.
                (Returned (), c3\<lparr>net_coil_field := fieldValue\<rparr>))))"

section \<open>Notions used in the statements\<close>

subsection \<open>A supply that follows a script\<close>

text \<open>For concrete runs: the supply answers the \<open>n\<close>-th write with the \<open>n\<close>-th reply of
  a script and with nothing once the script is used up; no code point beyond ASCII is a
  decimal digit.\<close>

definition scripted :: "byte list list runtime" where
  "scripted =
     \<lparr>respond = (\<lambda>script written. case script of [] \<Rightarrow> ([], []) | reply # rest \<Rightarrow> (reply, rest)),
      decimal = (\<lambda>c. None)\<rparr>"

text \<open>A reply of the supply between its start and stop bytes.\<close>

definition framed :: "string \<Rightarrow> byte list" where
  "framed txt = 0x13 # ascii_bytes (py_str txt) @ [0x11]"

text \<open>\<^verbatim>\<open>PowerSupply('COM1')\<close> in front of a scripted supply: the port is closed.\<close>

definition closed_supply :: "byte list list \<Rightarrow> byte list list PowerSupply" where
  "closed_supply script = PowerSupply_init (py_str ''COM1'') script"

text \<open>A command as \<^verbatim>\<open>ser.write\<close> receives it.\<close>

definition on_wire :: "string \<Rightarrow> byte list" where
  "on_wire txt = ascii_bytes (py_str txt) @ [0x0D]"

subsection \<open>A supply that reports the current it was given\<close>

text \<open>Modelled from the spec: the supply is hardware, not code of the repository. This is
  the supply of the round-trip property: it is in constant-current mode (it answers
  "STAT?" with "CC"), it stores the milliamp value of a "CURR ddd.d" command as the
  command gave it and acknowledges with no message, and it reports the stored value,
  between the start and the stop byte, when asked "CURR?". Its state is the stored
  value; \<open>nd\<close> is the table of decimal digits of the interpreter.\<close>

definition echo_supply :: "(nat \<Rightarrow> nat option) \<Rightarrow> byte list runtime" where
  "echo_supply nd =
     \<lparr>respond = (\<lambda>stored written.
        if written = on_wire ''STAT?'' then (framed ''CC'', stored)
        else if written = on_wire ''CURR?'' then (0x13 # stored @ [0x11], stored)
        else if take 5 written = ascii_bytes (py_str ''CURR '') then ([], butlast (drop 5 written))
        else ([], stored)),
      decimal = nd\<rparr>"

subsection \<open>A coil for concrete runs\<close>

text \<open>The coil that \<^verbatim>\<open>Coil('COM1', gain)\<close> makes when the scripted supply answers the
  current query of \<^verbatim>\<open>__init__\<close> with "500.0": 0.5 A, on a closed port, with the rest of
  the script still to come.\<close>

definition example_coil :: "real \<Rightarrow> byte list list \<Rightarrow> byte list list Coil" where
  "example_coil gain script =
     \<lparr>coil_supply = (closed_supply script)\<lparr>sent := [on_wire ''CURR?'']\<rparr>,
      field_gain = gain,
      maxPowerSupplyCurrent = 9990 / 10000, minPowerSupplyCurrent = 1 / 1000,
      appliedMaxField = gain * (9990 / 10000), appliedMinField = gain * (1 / 1000),
      current = 1 / 2, coil_field = 1 / 2 * gain\<rparr>"

subsection \<open>A coil with a correction coil, for concrete runs\<close>

text \<open>The object that \<^verbatim>\<open>CoilWithCorrection('COM1', gain, 'DAC0', small_gain)\<close> makes when
  the supply answers the current query of \<^verbatim>\<open>__init__\<close> with \<open>amps\<close>, for a correction
  coil of 0.001 T/A.\<close>

definition example_dual_coil :: "real \<Rightarrow> real \<Rightarrow> byte list list CoilWithCorrection" where
  "example_dual_coil gain amps =
     \<lparr>coil_supply = (closed_supply [])\<lparr>sent := [on_wire ''CURR?'']\<rparr>,
      field_gain = gain,
      maxPowerSupplyCurrent = 9990 / 10000, minPowerSupplyCurrent = 1 / 1000,
      appliedMaxField = gain * (9990 / 10000), appliedMinField = gain * (1 / 1000),
      current = amps, coil_field = amps * gain,
      dacName = py_str ''DAC0'', smallCoilFieldGain = 1 / 1000, voltageGain = 250,
      dacVoltage = 0, minPowerSupplyCurrentStep = 1 / 10000, smallCoilField = 0,
      net_coil_field = amps * gain + 0, smallFieldValue = None\<rparr>"

subsection \<open>The band of the correction coil\<close>

text \<open>The smallest field step of the large coil: the smallest current step of the supply
  times the field gain (\<^verbatim>\<open>minimumcoil_fieldStep\<close> in \<^verbatim>\<open>setField\<close>).\<close>

definition coarse_step :: "'d CoilWithCorrection \<Rightarrow> real" where
  "coarse_step c = minPowerSupplyCurrentStep c * field_gain c"

text \<open>In the words of the spec: \<open>delta\<close> falls outside the closed band from
  \<open>offset - fine_range\<close> to \<open>offset + fine_range\<close>.\<close>

definition outside_band :: "real \<Rightarrow> real \<Rightarrow> real \<Rightarrow> bool" where
  "outside_band delta offset fine_range \<longleftrightarrow>
     delta < offset - fine_range \<or> offset + fine_range < delta"

subsection \<open>The field a coil caches\<close>


subsection \<open>The port at the exit of an operation\<close>

text \<open>What the operations do with the port, \<open>s\<close> being the supply before the call and
  \<open>res\<close> the outcome with the supply after it: after a return the port is open exactly
  if it was open before; after a raise, and where the call blocks, the port is open.\<close>

definition port_discipline :: "'d PowerSupply \<Rightarrow> 'a outcome \<times> 'd PowerSupply \<Rightarrow> bool" where
  "port_discipline s res =
     (case fst res of
        Returned x \<Rightarrow> portOpen (snd res) = portOpen s
      | Raised e \<Rightarrow> portOpen (snd res)
      | Blocked \<Rightarrow> portOpen (snd res))"

subsection \<open>Tokens of the pattern\<close>

text \<open>The pattern \<^verbatim>\<open>\d+\.\d\<close> in the words of the spec: a token is one or more digits, the
  decimal point (code point 46) and one digit. A text contains a token if the token
  stands somewhere in it; the first token is the one that starts leftmost.\<close>

definition is_token :: "(nat \<Rightarrow> nat option) \<Rightarrow> str \<Rightarrow> bool" where
  "is_token nd t \<longleftrightarrow>
     (\<exists>ds d. t = ds @ [46, d] \<and> ds \<noteq> [] \<and> list_all (is_digit nd) ds \<and> is_digit nd d)"

definition contains_token :: "(nat \<Rightarrow> nat option) \<Rightarrow> str \<Rightarrow> bool" where
  "contains_token nd s \<longleftrightarrow> (\<exists>pre t post. s = pre @ t @ post \<and> is_token nd t)"

definition first_token :: "(nat \<Rightarrow> nat option) \<Rightarrow> str \<Rightarrow> str \<Rightarrow> bool" where
  "first_token nd s t \<longleftrightarrow>
     (\<exists>pre post. s = pre @ t @ post \<and> is_token nd t
        \<and> (\<forall>pre' t' post'. s = pre' @ t' @ post' \<and> is_token nd t' \<longrightarrow> length pre \<le> length pre'))"

section \<open>Properties\<close>

subsection \<open>The error classifier\<close>

text \<open>
  Claim C10. For every message, \<^verbatim>\<open>parseErrorMessages\<close> raises and never returns: "Syntax
  Error" and "Out Of Range" give their own errors, every other message (benign text, a
  float, the empty bytearray) gives the strange-message error, which keeps the message
  as it was. So whatever follows a call of it in an operation is never run: the
  operation ends in that error, with the state as it was at the call.
\<close>

theorem parseErrorMessages_always_raises:
  "(\<exists>e. parseErrorMessages m = Raised e)
   \<and> parseErrorMessages m \<noteq> Returned ()
   \<and> parseErrorMessages m \<noteq> Blocked
   \<and> parseErrorMessages (Text (py_str ''Syntax Error'')) = Raised DeviceSyntaxError
   \<and> parseErrorMessages (Text (py_str ''Out Of Range'')) = Raised DeviceOutOfRange
   \<and> (m \<noteq> Text (py_str ''Syntax Error'') \<and> m \<noteq> Text (py_str ''Out Of Range'')
        \<longrightarrow> parseErrorMessages m = Raised (StrangeMessage m))
   \<and> (\<forall>s f. \<exists>e. bind (parseErrorMessages m, s) f = (Raised e, s))"
  by (simp add: parseErrorMessages_def bind_def py_str_def)

theorem parseErrorMessages_always_raises_witness:
  "parseErrorMessages (Text (py_str ''CV'')) = Raised (StrangeMessage (Text (py_str ''CV'')))"
proof -
  have benign: "Text (py_str ''CV'') \<noteq> Text (py_str ''Syntax Error'')
      \<and> Text (py_str ''CV'') \<noteq> Text (py_str ''Out Of Range'')"
    by (simp add: py_str_def)
  show ?thesis
    using benign parseErrorMessages_always_raises [of "Text (py_str ''CV'')"] by blast
qed

subsection \<open>Outcome and state of a sequence\<close>

lemma fst_bind:
  "fst (bind m f) =
     (case fst m of Returned a \<Rightarrow> fst (f a (snd m)) | Raised e \<Rightarrow> Raised e | Blocked \<Rightarrow> Blocked)"
  by (cases m; cases "fst m") (auto simp: bind_def)

lemma snd_bind:
  "snd (bind m f) = (case fst m of Returned a \<Rightarrow> snd (f a (snd m)) | _ \<Rightarrow> snd m)"
  by (cases m; cases "fst m") (auto simp: bind_def)

lemma portOpen_write: "portOpen (snd (PowerSupply_write rt c s)) = portOpen s"
  by (simp add: PowerSupply_write_def Let_def split: prod.splits option.splits)

lemma sent_write:
  "sent (snd (PowerSupply_write rt c s)) = (if portOpen s then sent s @ [c @ [0x0D]] else sent s)"
  by (simp add: PowerSupply_write_def Let_def split: prod.splits option.splits)

lemma portOpen_check_mode: "portOpen (snd (check_mode rt s)) = portOpen s"
  by (simp add: check_mode_def snd_bind portOpen_write split: outcome.splits)

lemma sent_check_mode:
  "sent (snd (check_mode rt s)) =
     (if portOpen s then sent s @ [on_wire ''STAT?''] else sent s)"
  by (simp add: check_mode_def on_wire_def snd_bind sent_write split: outcome.splits)

lemma snd_expect_nothing: "snd (expect_nothing out s) = s"
  by (simp add: expect_nothing_def snd_bind split: outcome.splits)

lemma snd_expect_float: "snd (expect_float out s) = s"
  by (simp add: expect_float_def split: response.splits)

lemmas port_simps = fst_bind snd_bind portOpen_write portOpen_check_mode snd_expect_nothing
  snd_expect_float automated_open_def automated_close_def open_port_def close_port_def Let_def

lemmas sent_simps = port_simps sent_write sent_check_mode

text \<open>Unfolding everything, for runs on concrete inputs.\<close>

lemmas run_simps = scripted_def framed_def closed_supply_def on_wire_def PowerSupply_init_def
  set_current_def get_current_def set_voltage_def get_voltage_def check_mode_def
  PowerSupply_write_def decode_reply_def automated_open_def automated_close_def
  open_port_def close_port_def bind_def Let_def ascii_bytes_def py_str_def
  match_here_def is_digit_def decimal_value_def parseErrorMessages_def
  expect_nothing_def expect_float_def py_len_def times_milli_def continuation_def
  float_of_token_def int_of_digits_def digit_val_def

subsection \<open>Opening and closing the port around an operation\<close>

lemma set_voltage_port: "port_discipline s (set_voltage rt v s)"
  by (simp add: port_discipline_def set_voltage_def port_simps split: outcome.splits)

lemma get_voltage_port: "port_discipline s (get_voltage rt s)"
  by (simp add: port_discipline_def get_voltage_def port_simps split: outcome.splits)

lemma get_current_port: "port_discipline s (get_current rt s)"
  by (simp add: port_discipline_def get_current_def port_simps split: outcome.splits)

lemma set_current_port: "port_discipline s (set_current rt v s)"
  by (simp add: port_discipline_def set_current_def port_simps split: outcome.splits)

text \<open>
  Claim C4, as the code has it. For each of the four operations and every state of the
  port before the call: after a normal return the port is open exactly if it was open
  before, that is, it is closed if and only if the operation opened it, and a port that
  was open is left open; after a raise the port is open, also when the operation opened
  it, since \<^verbatim>\<open>_automated_close\<close> is only reached on the normal path.
\<close>

theorem port_restored_on_return_open_after_raise:
  "port_discipline s (set_voltage rt v s)
   \<and> port_discipline s (get_voltage rt s)
   \<and> port_discipline s (set_current rt c s)
   \<and> port_discipline s (get_current rt s)"
  by (simp add: set_voltage_port get_voltage_port set_current_port get_current_port)

text \<open>
  Claim C4, as the spec states it, fails on the error path: the port is closed, the supply
  answers the mode query of \<^verbatim>\<open>set_current(0.5)\<close> with "CV", the operation raises the
  incorrect-mode error, and the port it opened stays open.
\<close>

theorem port_left_open_after_raise_counterexample:
  "fst (set_current scripted (1 / 2) (closed_supply [framed ''CV'']))
     = Raised (IncorrectMode ''constant voltage'')
   \<and> \<not> portOpen (closed_supply [framed ''CV''])
   \<and> portOpen (snd (set_current scripted (1 / 2) (closed_supply [framed ''CV''])))"
  by (simp add: run_simps)

subsection \<open>The mode guard\<close>

lemma check_mode_cases:
  "fst (check_mode rt s) = Returned m \<Longrightarrow> m = Text (py_str ''CV'') \<or> m = Text (py_str ''CC'')"
  by (auto simp: check_mode_def fst_bind parseErrorMessages_def split: outcome.splits if_splits)

lemma fst_expect_nothing_not_mode: "fst (expect_nothing out s) \<noteq> Raised (IncorrectMode x)"
  by (simp add: expect_nothing_def fst_bind py_len_def parseErrorMessages_def
      split: outcome.splits response.splits)

lemma fst_expect_float_not_mode: "fst (expect_float out s) \<noteq> Raised (IncorrectMode x)"
  by (simp add: expect_float_def parseErrorMessages_def split: response.splits)

lemma fst_write_not_mode: "fst (PowerSupply_write rt c s) \<noteq> Raised (IncorrectMode x)"
  by (simp add: PowerSupply_write_def decode_reply_def Let_def split: prod.splits option.splits)

lemma fst_check_mode_not_mode: "fst (check_mode rt s) \<noteq> Raised (IncorrectMode x)"
  by (auto simp: check_mode_def fst_bind parseErrorMessages_def fst_write_not_mode
      split: outcome.splits)

lemmas not_mode = fst_check_mode_not_mode fst_write_not_mode fst_expect_float_not_mode
  fst_expect_nothing_not_mode

lemma get_voltage_incorrect_mode:
  "(\<exists>x. fst (get_voltage rt s) = Raised (IncorrectMode x))
      \<longleftrightarrow> (\<exists>m. fst (check_mode rt (snd (automated_open s))) = Returned m
               \<and> m \<noteq> Text (py_str ''CV''))"
  by (auto simp: get_voltage_def fst_bind snd_bind Let_def split_def not_mode
      split: outcome.splits)

lemma set_current_incorrect_mode:
  "(\<exists>x. fst (set_current rt v s) = Raised (IncorrectMode x))
      \<longleftrightarrow> (\<exists>m. fst (check_mode rt (snd (automated_open s))) = Returned m
               \<and> m \<noteq> Text (py_str ''CC''))"
  by (auto simp: set_current_def fst_bind snd_bind Let_def split_def not_mode
      split: outcome.splits)

text \<open>
  Claim C6. The operations with a mode guard are \<^verbatim>\<open>get_voltage\<close>, which requires "CV",
  and \<^verbatim>\<open>set_current\<close>, which requires "CC". Each of them fails with the incorrect-mode
  error if and only if the mode query, made on the opened port, returned a mode that
  differs from the required one; a mode the query returns is "CV" or "CC"; and when the
  query returns the required mode the operation does not fail with the incorrect-mode
  error, whatever happens later in it.
\<close>

theorem incorrect_mode_iff_mode_differs:
  "((\<exists>x. fst (get_voltage rt s) = Raised (IncorrectMode x))
      \<longleftrightarrow> (\<exists>m. fst (check_mode rt (snd (automated_open s))) = Returned m
               \<and> m \<noteq> Text (py_str ''CV'')))
   \<and> ((\<exists>x. fst (set_current rt c s) = Raised (IncorrectMode x))
      \<longleftrightarrow> (\<exists>m. fst (check_mode rt (snd (automated_open s))) = Returned m
               \<and> m \<noteq> Text (py_str ''CC'')))
   \<and> (\<forall>m. fst (check_mode rt (snd (automated_open s))) = Returned m
          \<longrightarrow> m = Text (py_str ''CV'') \<or> m = Text (py_str ''CC''))
   \<and> (fst (check_mode rt (snd (automated_open s))) = Returned (Text (py_str ''CV''))
          \<longrightarrow> (\<forall>x. fst (get_voltage rt s) \<noteq> Raised (IncorrectMode x)))
   \<and> (fst (check_mode rt (snd (automated_open s))) = Returned (Text (py_str ''CC''))
          \<longrightarrow> (\<forall>x. fst (set_current rt c s) \<noteq> Raised (IncorrectMode x)))"
proof -
  have "fst (check_mode rt (snd (automated_open s))) = Returned (Text (py_str ''CV''))
          \<longrightarrow> (\<forall>x. fst (get_voltage rt s) \<noteq> Raised (IncorrectMode x))"
    using get_voltage_incorrect_mode [of rt s] by auto
  moreover have "fst (check_mode rt (snd (automated_open s))) = Returned (Text (py_str ''CC''))
          \<longrightarrow> (\<forall>x. fst (set_current rt c s) \<noteq> Raised (IncorrectMode x))"
    using set_current_incorrect_mode [of rt c s] by auto
  moreover have "\<forall>m. fst (check_mode rt (snd (automated_open s))) = Returned m
          \<longrightarrow> m = Text (py_str ''CV'') \<or> m = Text (py_str ''CC'')"
    using check_mode_cases by blast
  ultimately show ?thesis
    using get_voltage_incorrect_mode [of rt s] set_current_incorrect_mode [of rt c s]
    by blast
qed

text \<open>The theorem on a run: the port is closed, the supply answers the mode query with
  "CC", so the query returns "CC"; \<^verbatim>\<open>set_current(0.5)\<close> then does not fail with the
  incorrect-mode error and \<^verbatim>\<open>get_voltage()\<close> does.\<close>

theorem incorrect_mode_iff_mode_differs_witness:
  "fst (check_mode scripted (snd (automated_open (closed_supply [framed ''CC'']))))
     = Returned (Text (py_str ''CC''))
   \<and> (\<forall>x. fst (set_current scripted (1 / 2) (closed_supply [framed ''CC'']))
           \<noteq> Raised (IncorrectMode x))
   \<and> (\<exists>x. fst (get_voltage scripted (closed_supply [framed ''CC'']))
           = Raised (IncorrectMode x))"
proof -
  have query: "fst (check_mode scripted (snd (automated_open (closed_supply [framed ''CC'']))))
     = Returned (Text (py_str ''CC''))"
    by (simp add: run_simps)
  have differs: "Text (py_str ''CC'') \<noteq> Text (py_str ''CV'')"
    by (simp add: py_str_def)
  show ?thesis
    using query differs
      incorrect_mode_iff_mode_differs [of scripted "closed_supply [framed ''CC'']" "1 / 2"]
    by metis
qed

subsection \<open>The commands an operation writes\<close>

lemma sent_get_voltage:
  "sent (snd (get_voltage rt s)) =
     sent s @ on_wire ''STAT?''
       # (if fst (check_mode rt (snd (automated_open s))) = Returned (Text (py_str ''CV''))
          then [on_wire ''VOLT?''] else [])"
  by (auto simp: get_voltage_def on_wire_def sent_simps split: outcome.splits)

lemma sent_set_current:
  "sent (snd (set_current rt c s)) =
     sent s @ on_wire ''STAT?''
       # (if fst (check_mode rt (snd (automated_open s))) = Returned (Text (py_str ''CC''))
          then [ascii_bytes (py_str ''CURR '' @ format_f True 5 1 (c * 10 ^ 3)) @ [0x0D]]
          else [])"
  by (auto simp: set_current_def on_wire_def sent_simps split: outcome.splits)

lemma sent_set_voltage:
  "sent (snd (set_voltage rt v s)) =
     sent s @ [ascii_bytes (py_str ''VOLT '' @ format_f True 5 2 v) @ [0x0D]]"
  by (auto simp: set_voltage_def sent_simps split: outcome.splits)

lemma sent_get_current:
  "sent (snd (get_current rt s)) = sent s @ [on_wire ''CURR?'']"
  by (auto simp: get_current_def on_wire_def sent_simps split: outcome.splits)

text \<open>
  Claim C7, as the code has it by design. \<^verbatim>\<open>get_voltage\<close> and \<^verbatim>\<open>set_current\<close> write the
  mode query "STAT?" first, and their own command ("VOLT?", "CURR ddd.d") after it and
  only if the query returned the required mode. \<^verbatim>\<open>get_current\<close>, a read, writes its
  query "CURR?" and nothing else: it makes no mode query. (Nothing is said here about
  \<^verbatim>\<open>set_voltage\<close>.)
\<close>

theorem mode_query_before_guarded_commands:
  "sent (snd (get_voltage rt s)) =
     sent s @ on_wire ''STAT?''
       # (if fst (check_mode rt (snd (automated_open s))) = Returned (Text (py_str ''CV''))
          then [on_wire ''VOLT?''] else [])
   \<and> sent (snd (set_current rt c s)) =
     sent s @ on_wire ''STAT?''
       # (if fst (check_mode rt (snd (automated_open s))) = Returned (Text (py_str ''CC''))
          then [ascii_bytes (py_str ''CURR '' @ format_f True 5 1 (c * 10 ^ 3)) @ [0x0D]]
          else [])
   \<and> sent (snd (get_current rt s)) = sent s @ [on_wire ''CURR?'']"
  by (simp only: sent_get_voltage sent_set_current sent_get_current simp_thms)

text \<open>
  Claim C7, as the spec states it, fails for \<^verbatim>\<open>get_current\<close>: on a closed port with a
  supply that answers "012.3", the call returns 0.0123 A and the only thing it has
  written is "CURR?", with no mode query before it.
\<close>

theorem get_current_writes_no_mode_query_counterexample:
  "sent (snd (get_current scripted (closed_supply [framed ''012.3'']))) = [on_wire ''CURR?'']
   \<and> fst (get_current scripted (closed_supply [framed ''012.3''])) = Returned (123 / 10000)"
  by (simp add: run_simps)

subsection \<open>Searching the reply for a number\<close>

lemma point_not_digit: "\<not> is_digit nd 46"
  by (simp add: is_digit_def decimal_value_def)

lemma match_here_token:
  assumes "match_here nd s = Some t"
  shows "is_token nd t \<and> (\<exists>post. s = t @ post)"
proof -
  let ?ds = "takeWhile (is_digit nd) s"
  from assms obtain d r where
    dw: "dropWhile (is_digit nd) s = 46 # d # r" and ne: "?ds \<noteq> []" and dd: "is_digit nd d"
    and t: "t = ?ds @ [46, d]"
    by (auto simp: match_here_def Let_def split: list.splits if_splits)
  have "list_all (is_digit nd) ?ds"
    by (simp add: list_all_iff) (meson set_takeWhileD)
  with ne dd t have "is_token nd t" unfolding is_token_def by blast
  moreover have "s = ?ds @ dropWhile (is_digit nd) s" by simp
  with dw t have "s = t @ r" by simp
  ultimately show ?thesis by blast
qed

lemma token_match_here:
  assumes "is_token nd t"
  shows "match_here nd (t @ post) = Some t"
proof -
  from assms obtain ds d where t: "t = ds @ [46, d]" and ne: "ds \<noteq> []"
    and all: "list_all (is_digit nd) ds" and dd: "is_digit nd d"
    unfolding is_token_def by blast
  have tw: "takeWhile (is_digit nd) (t @ post) = ds"
    using all point_not_digit [of nd] unfolding t
    by (simp add: list_all_iff)
  have dw: "dropWhile (is_digit nd) (t @ post) = 46 # d # post"
    using all point_not_digit [of nd] unfolding t
    by (simp add: list_all_iff)
  show ?thesis
    unfolding match_here_def tw dw using ne dd t by simp
qed

lemma match_here_iff:
  "match_here nd s = Some t \<longleftrightarrow> is_token nd t \<and> (\<exists>post. s = t @ post)"
  using match_here_token token_match_here by blast

lemma token_nonempty: "is_token nd t \<Longrightarrow> t \<noteq> []"
  by (auto simp: is_token_def)

lemma re_search_None_iff: "re_search nd s = None \<longleftrightarrow> \<not> contains_token nd s"
proof (induction s)
  case Nil
  then show ?case by (auto simp: contains_token_def dest: token_nonempty)
next
  case (Cons c cs)
  show ?case
  proof (cases "match_here nd (c # cs)")
    case (Some t)
    then have "contains_token nd (c # cs)"
      unfolding contains_token_def using match_here_token [OF Some]
      by (metis append_Nil)
    with Some show ?thesis by simp
  next
    case None
    have "contains_token nd (c # cs) \<longleftrightarrow> contains_token nd cs"
    proof
      assume "contains_token nd (c # cs)"
      then obtain pre t post where d: "c # cs = pre @ t @ post" and tk: "is_token nd t"
        unfolding contains_token_def by blast
      have "pre \<noteq> []"
      proof
        assume "pre = []"
        with d tk have "match_here nd (c # cs) = Some t" by (simp add: token_match_here)
        with None show False by simp
      qed
      then obtain pre' where "pre = c # pre'" "cs = pre' @ t @ post"
        using d by (cases pre) auto
      with tk show "contains_token nd cs" unfolding contains_token_def by blast
    next
      assume "contains_token nd cs"
      then obtain pre t post where "cs = pre @ t @ post" "is_token nd t"
        unfolding contains_token_def by blast
      then have "c # cs = (c # pre) @ t @ post" by simp
      with \<open>is_token nd t\<close> show "contains_token nd (c # cs)"
        unfolding contains_token_def by blast
    qed
    with None Cons show ?thesis by simp
  qed
qed

lemma re_search_Some_iff: "re_search nd s = Some t \<longleftrightarrow> first_token nd s t"
proof (induction s)
  case Nil
  then show ?case by (auto simp: first_token_def dest: token_nonempty)
next
  case (Cons c cs)
  show ?case
  proof (cases "match_here nd (c # cs)")
    case (Some u)
    then have u: "is_token nd u" and "\<exists>post. c # cs = u @ post"
      using match_here_token by blast+
    then obtain post where post: "c # cs = [] @ u @ post" by auto
    have "first_token nd (c # cs) t \<longleftrightarrow> t = u"
    proof
      assume "first_token nd (c # cs) t"
      then obtain pre post' where d: "c # cs = pre @ t @ post'" and tk: "is_token nd t"
        and least: "\<forall>pre' t' post'. c # cs = pre' @ t' @ post' \<and> is_token nd t'
                       \<longrightarrow> length pre \<le> length pre'"
        unfolding first_token_def by blast
      from least post u have "length pre \<le> length ([]::nat list)" by blast
      then have "pre = []" by simp
      with d tk have "match_here nd (c # cs) = Some t" by (simp add: token_match_here)
      with Some show "t = u" by simp
    next
      assume "t = u"
      with post u show "first_token nd (c # cs) t"
        unfolding first_token_def by (metis le0 list.size(3))
    qed
    with Some show ?thesis by auto
  next
    case None
    have shift: "c # cs = pre @ u @ post \<Longrightarrow> is_token nd u \<Longrightarrow> \<exists>pre'. pre = c # pre' \<and> cs = pre' @ u @ post"
      for pre u post
    proof -
      assume d: "c # cs = pre @ u @ post" and tk: "is_token nd u"
      have "pre \<noteq> []"
      proof
        assume "pre = []"
        with d tk have "match_here nd (c # cs) = Some u" by (simp add: token_match_here)
        with None show False by simp
      qed
      then show ?thesis using d by (cases pre) auto
    qed
    have "first_token nd (c # cs) t \<longleftrightarrow> first_token nd cs t"
    proof
      assume "first_token nd (c # cs) t"
      then obtain pre post where d: "c # cs = pre @ t @ post" and tk: "is_token nd t"
        and least: "\<forall>pre' t' post'. c # cs = pre' @ t' @ post' \<and> is_token nd t'
                       \<longrightarrow> length pre \<le> length pre'"
        unfolding first_token_def by blast
      from shift [OF d tk] obtain p where p: "pre = c # p" "cs = p @ t @ post" by blast
      have "length p \<le> length pre'" if "cs = pre' @ t' @ post'" "is_token nd t'" for pre' t' post'
      proof -
        from that have "c # cs = (c # pre') @ t' @ post'" by simp
        with least that have "length pre \<le> length (c # pre')" by blast
        with p show ?thesis by simp
      qed
      with p tk show "first_token nd cs t" unfolding first_token_def by blast
    next
      assume "first_token nd cs t"
      then obtain pre post where d: "cs = pre @ t @ post" and tk: "is_token nd t"
        and least: "\<forall>pre' t' post'. cs = pre' @ t' @ post' \<and> is_token nd t'
                       \<longrightarrow> length pre \<le> length pre'"
        unfolding first_token_def by blast
      have "length (c # pre) \<le> length pre'" if "c # cs = pre' @ t' @ post'" "is_token nd t'" for pre' t' post'
      proof -
        from shift [OF that] obtain p where p: "pre' = c # p" "cs = p @ t' @ post'" by blast
        with least that have "length pre \<le> length p" by blast
        with p show ?thesis by simp
      qed
      moreover from d have "c # cs = (c # pre) @ t @ post" by simp
      ultimately show "first_token nd (c # cs) t"
        using tk unfolding first_token_def by blast
    qed
    with None Cons show ?thesis by simp
  qed
qed

text \<open>
  Claim C5, as the code has it. The empty payload gives \<open>Empty\<close>. A payload that is not
  empty is decoded as UTF-8: if it is not valid UTF-8 the decoding raises
  UnicodeDecodeError and there is no response; if it decodes to a text that contains a
  token of the pattern, the first token is parsed and returned as \<open>Numeric\<close>; if the
  text contains no token, the text itself is returned as \<open>Text\<close>. A text that contains
  a token has a first one, so the cases cover every payload.
\<close>

theorem decode_reply_cases:
  "decode_reply nd [] = Returned Empty
   \<and> (out \<noteq> [] \<and> utf8_decode (map unat out) = None
        \<longrightarrow> decode_reply nd out = Raised UnicodeDecodeError)
   \<and> (out \<noteq> [] \<and> utf8_decode (map unat out) = Some txt \<and> first_token nd txt t
        \<longrightarrow> decode_reply nd out = Returned (Numeric (float_of_token nd t)))
   \<and> (out \<noteq> [] \<and> utf8_decode (map unat out) = Some txt \<and> \<not> contains_token nd txt
        \<longrightarrow> decode_reply nd out = Returned (Text txt))
   \<and> (contains_token nd txt \<longrightarrow> (\<exists>t'. first_token nd txt t'))"
proof -
  have "contains_token nd txt \<longrightarrow> (\<exists>t'. first_token nd txt t')"
    using re_search_None_iff [of nd "txt"] re_search_Some_iff [of nd "txt"]
    by (cases "re_search nd txt") auto
  then show ?thesis
    using re_search_None_iff [of nd "txt"] re_search_Some_iff [of nd "txt" t]
    by (auto simp: decode_reply_def)
qed

text \<open>The theorem on the payload "a12.34": it is valid UTF-8, its first token is "12.3",
  and the response is the number 12.3.\<close>

theorem decode_reply_cases_witness:
  "utf8_decode (map unat [0x61, 0x31, 0x32, 0x2E, 0x33, 0x34 :: byte])
     = Some [97, 49, 50, 46, 51, 52]
   \<and> first_token (decimal scripted) [97, 49, 50, 46, 51, 52] [49, 50, 46, 51]
   \<and> decode_reply (decimal scripted) [0x61, 0x31, 0x32, 0x2E, 0x33, 0x34]
       = Returned (Numeric (123 / 10))"
proof -
  have decoded: "utf8_decode (map unat [0x61, 0x31, 0x32, 0x2E, 0x33, 0x34 :: byte])
     = Some [97, 49, 50, 46, 51, 52]"
    by simp
  have found: "first_token (decimal scripted) [97, 49, 50, 46, 51, 52] [49, 50, 46, 51]"
    unfolding re_search_Some_iff [symmetric]
    by (simp add: match_here_def is_digit_def decimal_value_def scripted_def)
  have nonempty: "[0x61, 0x31, 0x32, 0x2E, 0x33, 0x34 :: byte] \<noteq> []"
    by simp
  have "decode_reply (decimal scripted) [0x61, 0x31, 0x32, 0x2E, 0x33, 0x34]
       = Returned (Numeric (float_of_token (decimal scripted) [49, 50, 46, 51]))"
    using decoded found nonempty
      decode_reply_cases [of "decimal scripted" "[0x61, 0x31, 0x32, 0x2E, 0x33, 0x34]"
        "[97, 49, 50, 46, 51, 52]" "[49, 50, 46, 51]"]
    by blast
  moreover have "float_of_token (decimal scripted) [49, 50, 46, 51] = 123 / 10"
    by (simp add: float_of_token_def int_of_digits_def digit_val_def decimal_value_def)
  ultimately show ?thesis using decoded found by simp
qed

text \<open>
  Claim C5, as the spec states it, fails on a payload that is not valid UTF-8: for the
  one byte \<open>0xFF\<close> the decoding raises, and so does \<^verbatim>\<open>get_current\<close> on a supply that
  sends this byte as its message.
\<close>

theorem undecodable_payload_counterexample:
  "decode_reply (decimal scripted) [0xFF] = Raised UnicodeDecodeError
   \<and> fst (get_current scripted (closed_supply [[0x13, 0xFF, 0x11]])) = Raised UnicodeDecodeError"
  by (simp add: run_simps)

subsection \<open>Setting a current and reading it back\<close>

lemma round_half_even_close: "\<bar>of_int (round_half_even x) - x\<bar> \<le> 1 / 2"
  unfolding round_half_even_def Let_def
  by (auto simp: abs_le_iff not_less)

lemma round_half_even_nonneg: "0 \<le> x \<Longrightarrow> 0 \<le> round_half_even x"
  unfolding round_half_even_def Let_def by (auto simp: not_less) 

lemma dec_digits_range: "c \<in> set (dec_digits n) \<Longrightarrow> 48 \<le> c \<and> c \<le> 57"
proof (induction n rule: dec_digits.induct)
  case (1 n)
  show ?case
  proof (cases "n < 10")
    case True
    with "1.prems" show ?thesis by (subst (asm) dec_digits.simps) simp
  next
    case False
    have "n mod 10 < 10" by simp
    with False "1.prems" "1.IH" show ?thesis
      by (subst (asm) dec_digits.simps) (auto split: if_splits)
  qed
qed

lemma dec_digits_nonempty: "dec_digits n \<noteq> []"
  by (subst dec_digits.simps) simp

lemma int_of_digits_snoc:
  "int_of_digits nd (ds @ [c]) = 10 * int_of_digits nd ds + digit_val nd c"
  by (simp add: int_of_digits_def)

lemma digit_val_ascii: "d < 10 \<Longrightarrow> digit_val nd (48 + d) = d"
  by (simp add: digit_val_def decimal_value_def)

lemma int_of_dec_digits: "int_of_digits nd (dec_digits n) = n"
proof (induction n rule: dec_digits.induct)
  case (1 n)
  show ?case
  proof (cases "n < 10")
    case True
    then show ?thesis
      by (subst dec_digits.simps) (simp add: int_of_digits_def digit_val_ascii)
  next
    case False
    with "1.IH" show ?thesis
      by (subst dec_digits.simps) (simp add: int_of_digits_snoc digit_val_ascii)
  qed
qed

lemma int_of_digits_zeros: "int_of_digits nd (replicate m 48 @ ds) = int_of_digits nd ds"
proof -
  have "foldl (\<lambda>a c. 10 * a + digit_val nd c) 0 (replicate m 48) = 0"
    by (induction m) (simp_all add: digit_val_def decimal_value_def)
  then show ?thesis by (simp add: int_of_digits_def)
qed


lemma format_current_shape:
  assumes "0 \<le> x"
  shows "\<exists>ds d. format_f True 5 1 x = ds @ [46, 48 + d] \<and> ds \<noteq> [] \<and> d < 10
           \<and> (\<forall>c \<in> set ds. 48 \<le> c \<and> c \<le> 57)
           \<and> int_of_digits nd ds = nat (round_half_even (x * 10)) div 10
           \<and> d = nat (round_half_even (x * 10)) mod 10"
proof -
  define k where "k = nat (round_half_even (x * 10))"
  define fill where "fill = 5 - (length (dec_digits (k div 10)) + 2)"
  have frac: "dec_digits (k mod 10) = [48 + k mod 10]"
    by (subst dec_digits.simps) simp
  have "format_f True 5 1 x = (replicate fill 48 @ dec_digits (k div 10)) @ [46, 48 + k mod 10]"
    using assms by (simp add: format_f_def Let_def k_def [symmetric] frac fill_def)
  moreover have "replicate fill 48 @ dec_digits (k div 10) \<noteq> []"
    by (simp add: dec_digits_nonempty)
  moreover have "\<forall>c \<in> set (replicate fill 48 @ dec_digits (k div 10)). 48 \<le> c \<and> c \<le> 57"
    using dec_digits_range by auto
  moreover have "int_of_digits nd (replicate fill 48 @ dec_digits (k div 10)) = k div 10"
    by (simp add: int_of_digits_zeros int_of_dec_digits)
  moreover have "k mod 10 < 10" by simp
  ultimately show ?thesis unfolding k_def by blast
qed

lemma ascii_digit: "48 \<le> c \<Longrightarrow> c \<le> 57 \<Longrightarrow> is_digit nd c"
  by (simp add: is_digit_def decimal_value_def)

lemma format_current_token:
  assumes "0 \<le> x"
  shows "is_token nd (format_f True 5 1 x)"
proof -
  from format_current_shape [OF assms, of nd] obtain ds d where
    "format_f True 5 1 x = ds @ [46, 48 + d]" "ds \<noteq> []" "d < 10"
    "\<forall>c \<in> set ds. 48 \<le> c \<and> c \<le> 57"
    by blast
  then show ?thesis
    unfolding is_token_def by (auto simp: list_all_iff ascii_digit intro!: exI [of _ ds])
qed

lemma format_current_value:
  assumes "0 \<le> x"
  shows "float_of_token nd (format_f True 5 1 x) = of_int (round_half_even (x * 10)) / 10"
proof -
  define k where "k = nat (round_half_even (x * 10))"
  from format_current_shape [OF assms, of nd] obtain ds d where
    f: "format_f True 5 1 x = ds @ [46, 48 + d]" and d: "d < 10" "d = k mod 10"
    and v: "int_of_digits nd ds = k div 10"
    unfolding k_def by blast
  have "0 \<le> round_half_even (x * 10)"
    using assms by (simp add: round_half_even_nonneg)
  then have k: "of_int (round_half_even (x * 10)) = (of_nat k :: real)"
    unfolding k_def by simp
  have "float_of_token nd (format_f True 5 1 x) = of_nat (k div 10) + of_nat (k mod 10) / 10"
    unfolding f float_of_token_def using d v
    by (simp add: butlast_append digit_val_ascii)
  also have "\<dots> = of_nat (10 * (k div 10) + k mod 10) / 10"
    by (simp only: of_nat_add of_nat_mult add_divide_distrib)
  also have "\<dots> = of_nat k / 10" by simp
  finally show ?thesis using k by simp
qed

lemma format_current_chars:
  assumes "0 \<le> x" and "c \<in> set (format_f True 5 1 x)"
  shows "46 \<le> c \<and> c \<le> 57"
proof -
  from format_current_shape [OF assms(1), of "\<lambda>c. None"] obtain ds d where
    "format_f True 5 1 x = ds @ [46, 48 + d]" "d < 10"
    "\<forall>c \<in> set ds. 48 \<le> c \<and> c \<le> 57"
    by blast
  with assms(2) show ?thesis by auto
qed

lemma utf8_decode_ascii: "\<forall>c \<in> set s. c < 128 \<Longrightarrow> utf8_decode s = Some s"
  by (induction s) simp_all

lemma unat_ascii_bytes: "\<forall>c \<in> set s. c < 256 \<Longrightarrow> map unat (ascii_bytes s) = s"
  by (induction s) (simp_all add: ascii_bytes_def unat_of_nat)

lemma read_message_clean:
  "\<forall>b \<in> set bs. b \<noteq> 0x11 \<and> b \<noteq> 0x0D \<Longrightarrow> read_message (bs @ [0x11]) acc = Some (acc @ bs)"
  by (induction bs arbitrary: acc) simp_all

lemma ascii_bytes_clean:
  assumes "\<forall>c \<in> set s. 46 \<le> c \<and> c \<le> 57"
  shows "\<forall>b \<in> set (ascii_bytes s). b \<noteq> 0x11 \<and> b \<noteq> 0x0D"
proof
  fix b assume "b \<in> set (ascii_bytes s)"
  then obtain c where c: "c \<in> set s" "b = of_nat c" by (auto simp: ascii_bytes_def)
  with assms have r: "46 \<le> c" "c \<le> 57" by auto
  then have "unat b = c" using c by (simp add: unat_of_nat)
  with r show "b \<noteq> 0x11 \<and> b \<noteq> 0x0D" by auto
qed


lemma echo_stat:
  "portOpen s \<Longrightarrow>
     PowerSupply_write (echo_supply nd) (ascii_bytes (py_str ''STAT?'')) s
       = (Returned (Text (py_str ''CC'')), s\<lparr>sent := sent s @ [on_wire ''STAT?'']\<rparr>)"
  by (simp add: echo_supply_def run_simps)

lemma echo_check_mode:
  "portOpen s \<Longrightarrow>
     check_mode (echo_supply nd) s
       = (Returned (Text (py_str ''CC'')), s\<lparr>sent := sent s @ [on_wire ''STAT?'']\<rparr>)"
  by (simp add: check_mode_def echo_stat bind_def)

lemma echo_set:
  "portOpen s \<Longrightarrow>
     PowerSupply_write (echo_supply nd) (ascii_bytes (py_str ''CURR '' @ cur)) s
       = (Returned Empty,
          s\<lparr>device := ascii_bytes cur,
            sent := sent s @ [ascii_bytes (py_str ''CURR '' @ cur) @ [0x0D]]\<rparr>)"
  by (simp add: echo_supply_def PowerSupply_write_def on_wire_def ascii_bytes_def py_str_def
      decode_reply_def Let_def)

lemma re_search_whole_token:
  assumes "is_token nd t"
  shows "re_search nd t = Some t"
proof -
  from assms obtain c cs where t: "t = c # cs"
    using token_nonempty by (cases t) auto
  have "match_here nd (t @ []) = Some t"
    using assms by (rule token_match_here)
  then show ?thesis unfolding t by simp
qed

lemma echo_query:
  assumes "portOpen s" and "device s = ascii_bytes cur"
    and tok: "is_token nd cur" and chars: "\<forall>c \<in> set cur. 46 \<le> c \<and> c \<le> 57"
  shows "PowerSupply_write (echo_supply nd) (ascii_bytes (py_str ''CURR?'')) s
       = (Returned (Numeric (float_of_token nd cur)),
          s\<lparr>sent := sent s @ [on_wire ''CURR?'']\<rparr>)"
proof -
  have reply: "respond (echo_supply nd) (device s) (ascii_bytes (py_str ''CURR?'') @ [0x0D])
      = (0x13 # ascii_bytes cur @ [0x11], device s)"
    by (simp add: echo_supply_def on_wire_def ascii_bytes_def py_str_def assms(2))
  have msg: "read_message (ascii_bytes cur @ [0x11]) [] = Some (ascii_bytes cur)"
    using read_message_clean [OF ascii_bytes_clean [OF chars], of "[]"] by simp
  have "cur \<noteq> []" using tok by (rule token_nonempty)
  then have ne: "length (ascii_bytes cur) \<noteq> 0" by (simp add: ascii_bytes_def)
  have "\<forall>c \<in> set cur. c < 256" using chars by auto
  then have vals: "map unat (ascii_bytes cur) = cur" by (rule unat_ascii_bytes)
  have "\<forall>c \<in> set cur. c < 128" using chars by auto
  then have dec: "utf8_decode cur = Some cur" by (rule utf8_decode_ascii)
  have "decode_reply nd (ascii_bytes cur)
      = Returned (Numeric (float_of_token nd cur))"
    unfolding decode_reply_def using ne
    by (simp add: vals dec re_search_whole_token [OF tok])
  moreover have "decimal (echo_supply nd) = nd" by (simp add: echo_supply_def)
  ultimately show ?thesis
    using assms(1) by (simp add: PowerSupply_write_def reply msg on_wire_def Let_def)
qed

lemma echo_set_current:
  assumes "0 \<le> c"
  shows "set_current (echo_supply nd) c s
     = (Returned (),
        s\<lparr>device := ascii_bytes (format_f True 5 1 (c * 10 ^ 3)),
          sent := sent s @ [on_wire ''STAT?'',
                   ascii_bytes (py_str ''CURR '' @ format_f True 5 1 (c * 10 ^ 3)) @ [0x0D]]\<rparr>)"
  by (cases "portOpen s")
     (simp_all add: set_current_def automated_open_def automated_close_def open_port_def
        close_port_def Let_def echo_check_mode echo_set bind_def expect_nothing_def py_len_def)

lemma echo_get_current:
  assumes "0 \<le> x" and "device s = ascii_bytes (format_f True 5 1 x)"
  shows "get_current (echo_supply nd) s
     = (Returned (of_int (round_half_even (x * 10)) / 10 * (1 / 10 ^ 3)),
        s\<lparr>sent := sent s @ [on_wire ''CURR?'']\<rparr>)"
proof -
  note q = echo_query [OF _ _ format_current_token [OF assms(1)],
      unfolded format_current_value [OF assms(1)]]
  have chars: "\<forall>c \<in> set (format_f True 5 1 x). 46 \<le> c \<and> c \<le> 57"
    using format_current_chars [OF assms(1)] by blast
  show ?thesis
  proof (cases "portOpen s")
    case True
    with q [of s] assms(2) chars show ?thesis
      by (simp add: get_current_def automated_open_def automated_close_def Let_def bind_def
          expect_float_def times_milli_def)
  next
    case False
    with q [of "open_port s"] assms(2) chars show ?thesis
      by (simp add: get_current_def automated_open_def automated_close_def Let_def bind_def
          expect_float_def times_milli_def open_port_def close_port_def)
  qed
qed

text \<open>
  Claim C8. For every current \<open>c\<close> in the range the supply accepts, from 0.1 mA to
  999.9 mA, and every state of the port and of the supply before,
  \<^verbatim>\<open>set_current(c)\<close> returns, and \<^verbatim>\<open>get_current()\<close> after it returns a value
  within 0.1 mA (1e-4 A) of \<open>c\<close>, on the supply that stores the milliamp value it was
  given and reports it back. (The value read is \<open>c\<close> rounded to a tenth of a milliamp,
  so it is within half a step.)
\<close>

theorem set_current_get_current_within_step:
  assumes "1 / 10000 \<le> c" and "c \<le> 9999 / 10000"
  shows "fst (set_current (echo_supply nd) c s) = Returned ()
     \<and> (\<exists>x. fst (get_current (echo_supply nd) (snd (set_current (echo_supply nd) c s))) = Returned x
            \<and> \<bar>x - c\<bar> \<le> 1 / 10000 \<and> \<bar>x - c\<bar> \<le> 1 / 20000)"
proof -
  have c0: "0 \<le> c" using assms(1) by simp
  then have m0: "0 \<le> c * 10 ^ 3" by simp
  define x where "x = real_of_int (round_half_even (c * 10 ^ 3 * 10)) / 10 * (1 / 10 ^ 3)"
  have set: "fst (set_current (echo_supply nd) c s) = Returned ()"
    by (simp add: echo_set_current [OF c0])
  have get: "fst (get_current (echo_supply nd) (snd (set_current (echo_supply nd) c s))) = Returned x"
    unfolding x_def
    by (subst echo_get_current [OF m0]) (simp_all add: echo_set_current [OF c0])
  have "\<bar>real_of_int (round_half_even (c * 10000)) - c * 10000\<bar> \<le> 1 / 2"
    by (rule round_half_even_close)
  then have half: "\<bar>x - c\<bar> \<le> 1 / 20000"
    unfolding x_def by (simp add: abs_le_iff field_simps)
  then have "\<bar>x - c\<bar> \<le> 1 / 10000" by simp
  with set get half show ?thesis by blast
qed

text \<open>The theorem at 0.12346 A on a closed port: the command written is "CURR 123.5".\<close>

theorem set_current_get_current_within_step_witness:
  "(1 / 10000 :: real) \<le> 12346 / 100000 \<and> (12346 / 100000 :: real) \<le> 9999 / 10000
   \<and> fst (set_current (echo_supply (\<lambda>c. None)) (12346 / 100000) (PowerSupply_init (py_str ''COM1'') []))
       = Returned ()
   \<and> sent (snd (set_current (echo_supply (\<lambda>c. None)) (12346 / 100000) (PowerSupply_init (py_str ''COM1'') [])))
       = [on_wire ''STAT?'', on_wire ''CURR 123.5'']
   \<and> (\<exists>x. fst (get_current (echo_supply (\<lambda>c. None))
               (snd (set_current (echo_supply (\<lambda>c. None)) (12346 / 100000)
                  (PowerSupply_init (py_str ''COM1'') [])))) = Returned x
          \<and> \<bar>x - 12346 / 100000\<bar> \<le> 1 / 10000)"
proof -
  have range: "(1 / 10000 :: real) \<le> 12346 / 100000" "(12346 / 100000 :: real) \<le> 9999 / 10000"
    by simp_all
  have fmt: "format_f True 5 1 (12346 / 100000 * 10 ^ 3) = py_str ''123.5''"
    by (simp add: format_f_def round_half_even_def Let_def dec_digits.simps py_str_def)
  have "sent (snd (set_current (echo_supply (\<lambda>c. None)) (12346 / 100000) (PowerSupply_init (py_str ''COM1'') [])))
       = [on_wire ''STAT?'',
          ascii_bytes (py_str ''CURR '' @ format_f True 5 1 (12346 / 100000 * 10 ^ 3)) @ [0x0D]]"
    by (subst echo_set_current) (simp_all add: PowerSupply_init_def)
  then have log: "sent (snd (set_current (echo_supply (\<lambda>c. None)) (12346 / 100000) (PowerSupply_init (py_str ''COM1'') [])))
       = [on_wire ''STAT?'', on_wire ''CURR 123.5'']"
    unfolding fmt by (simp add: on_wire_def py_str_def)
  show ?thesis
    using range log
      set_current_get_current_within_step
        [OF range, of "\<lambda>c. None" "PowerSupply_init (py_str ''COM1'') []"]
    by blast
qed

subsection \<open>Setting the field of a coil twice\<close>

lemma example_coil_init:
  "Coil_init scripted (closed_supply (framed ''500.0'' # script)) gain
     = (Returned (example_coil gain script), coil_supply (example_coil gain script))"
  by (simp add: Coil_init_def example_coil_def run_simps)


lemma fst_on_supply: "fst (on_supply f c) = fst (f (coil_supply c))"
  by (simp add: on_supply_def split: prod.splits)






lemma nearest_double_at:
  assumes "power_int 2 e \<le> \<bar>x\<bar>" and "\<bar>x\<bar> < power_int 2 (e + 1)" and "- 1022 \<le> e"
  shows "nearest_double x
     = of_int (round_half_even (x / power_int 2 (e - 52))) * power_int 2 (e - 52)"
proof -
  have "(0::real) < power_int 2 e"
    by (rule zero_less_power_int) simp
  with assms(1) have pos: "0 < \<bar>x\<bar>"
    by linarith
  have "(2::real) powr (of_int e + 1) = 2 powr of_int (e + 1)"
    by simp
  then have "(2::real) powr of_int e \<le> \<bar>x\<bar>" "\<bar>x\<bar> < (2::real) powr (of_int e + 1)"
    using assms(1,2) by (simp_all only: powr_real_of_int' [of 2, simplified])
  then have "\<lfloor>log 2 \<bar>x\<bar>\<rfloor> = e"
    using pos by (simp add: floor_log_eq_powr_iff)
  with pos assms(3) show ?thesis
    by (simp add: nearest_double_def Let_def max_def)
qed

lemma format_tenth_milliamp: "format_f True 5 1 (1 / 10000 * 10 ^ 3) = py_str ''000.1''"
  by (simp add: format_f_def round_half_even_def Let_def dec_digits.simps py_str_def
      numeral_2_eq_2)

lemma run_check_mode_cc:
  "portOpen s \<Longrightarrow> device s = framed ''CC'' # rest \<Longrightarrow>
   check_mode scripted s
     = (Returned (Text (py_str ''CC'')), s\<lparr>device := rest, sent := sent s @ [on_wire ''STAT?'']\<rparr>)"
  by (simp add: check_mode_def PowerSupply_write_def scripted_def framed_def on_wire_def
      decode_reply_def bind_def Let_def ascii_bytes_def py_str_def match_here_def is_digit_def
      decimal_value_def)

lemma run_write_ack:
  "portOpen s \<Longrightarrow> device s = [] # rest \<Longrightarrow>
   PowerSupply_write scripted cmd s
     = (Returned Empty, s\<lparr>device := rest, sent := sent s @ [cmd @ [0x0D]]\<rparr>)"
  by (simp add: PowerSupply_write_def scripted_def decode_reply_def Let_def)




lemma run_set_current_minus_zero_cc:
  assumes "device s = framed ''CC'' # [] # rest"
  shows "set_current_minus_zero scripted s
     = (Returned (), s\<lparr>device := rest,
          sent := sent s @ [on_wire ''STAT?'', on_wire ''CURR -00.0'']\<rparr>)"
  using assms
  by (cases "portOpen s")
     (simp_all add: set_current_minus_zero_def automated_open_def automated_close_def
        open_port_def close_port_def Let_def run_check_mode_cc run_write_ack bind_def
        expect_nothing_def py_len_def on_wire_def py_str_def)

text \<open>A small negative field: gain 1 T/A, cached field 0.5 T, \<open>x\<close> the double
  \<open>- 2 ^ - 17\<close> T, about -0.0000076 T. The format prints the current as "-0.0000", the
  current read back is the float \<open>-0.0\<close>, and the command written is "CURR -00.0".\<close>

lemma set_coil_field_minus_zero:
  "set_coil_field scripted (- 1 / 131072) (example_coil 1 [framed ''CC'', []])
     = (Returned (),
        (example_coil 1 [framed ''CC'', []])
          \<lparr>current := 0, coil_field := 0,
           coil_supply := (coil_supply (example_coil 1 [framed ''CC'', []]))
             \<lparr>device := [],
              sent := [on_wire ''CURR?'', on_wire ''STAT?'', on_wire ''CURR -00.0'']\<rparr>\<rparr>)"
proof -
  have amps: "nearest_double (- (1 / 131072)) = - (1 / 131072)"
    by (subst nearest_double_at [where e = "-17"])
       (simp_all add: round_half_even_def Let_def power_int_minus)
  have printed: "float_of_format_4 (- (1 / 131072)) = 0"
    by (simp add: float_of_format_4_def round_half_even_def Let_def)
  have zero: "nearest_double 0 = 0"
    by (simp add: nearest_double_def)
  show ?thesis
    by (simp add: set_coil_field_def Let_def on_supply_def example_coil_def closed_supply_def
        PowerSupply_init_def amps printed zero run_set_current_minus_zero_cc)
qed




subsection \<open>Setting the field with the correction coil\<close>

lemma example_dual_coil_init_zero:
  "CoilWithCorrection_init scripted (closed_supply [framed ''000.0'']) gain (py_str ''DAC0'') (1 / 1000)
     = (Returned (example_dual_coil gain 0), coil_supply (example_dual_coil gain 0))"
  by (simp add: CoilWithCorrection_init_def Coil_init_def example_dual_coil_def Coil.extend_def
      run_simps)

lemma example_dual_coil_init_900:
  "CoilWithCorrection_init scripted (closed_supply [framed ''900.0'']) gain (py_str ''DAC0'') (1 / 1000)
     = (Returned (example_dual_coil gain (9 / 10)), coil_supply (example_dual_coil gain (9 / 10)))"
  by (simp add: CoilWithCorrection_init_def Coil_init_def example_dual_coil_def Coil.extend_def
      run_simps)

lemma band_test:
  "(step * (35 / 10) + 25 / 10 * step < delta \<or> delta < step * (35 / 10) - 25 / 10 * step)
     \<longleftrightarrow> outside_band delta (35 / 10 * step) (25 / 10 * step)"
  by (auto simp: outside_band_def)

lemma setField_band:
  "setField rt x c =
     (if outside_band (x - coil_field c) (35 / 10 * coarse_step c) (25 / 10 * coarse_step c)
      then (Raised (AttributeError ''setcoil_field''),
            c\<lparr>smallFieldValue := Some (x - coil_field c)\<rparr>)
      else bind (setSmallCoilField (x - coil_field c)
                   (c\<lparr>smallFieldValue := Some (x - coil_field c)\<rparr>))
             (\<lambda>_ c3. (Returned (), c3\<lparr>net_coil_field := x\<rparr>)))"
  unfolding setField_def Let_def coarse_step_def band_test [symmetric]
  by (simp add: bind_def)

lemma setField_outside:
  assumes "outside_band (x - coil_field c) (35 / 10 * coarse_step c) (25 / 10 * coarse_step c)"
  shows "setField rt x c
     = (Raised (AttributeError ''setcoil_field''), c\<lparr>smallFieldValue := Some (x - coil_field c)\<rparr>)"
  using assms by (simp add: setField_band)

lemma setField_inside:
  assumes "\<not> outside_band (x - coil_field c) (35 / 10 * coarse_step c) (25 / 10 * coarse_step c)"
  shows "setField rt x c
     = (if smallCoilFieldGain c = 0
        then (Raised ZeroDivisionError, c\<lparr>smallFieldValue := Some (x - coil_field c)\<rparr>)
        else (Returned (),
              c\<lparr>smallFieldValue := Some (x - coil_field c),
                dacVoltage := (x - coil_field c) / smallCoilFieldGain c * voltageGain c,
                net_coil_field := x\<rparr>))"
  using assms by (simp add: setField_band setSmallCoilField_def Let_def bind_def)

lemma setField_raises_iff:
  "fst (setField rt x c) = Raised (AttributeError ''setcoil_field'')
     \<longleftrightarrow> outside_band (x - coil_field c) (35 / 10 * coarse_step c) (25 / 10 * coarse_step c)"
  by (cases "outside_band (x - coil_field c) (35 / 10 * coarse_step c) (25 / 10 * coarse_step c)")
     (simp_all add: setField_outside setField_inside)

text \<open>
  Claim C1, on the code. The renormalising branch of \<^verbatim>\<open>setField\<close> is entered if and only
  if \<open>delta = target - coil_field\<close> lies strictly outside the closed band from
  \<open>offset - fine_range\<close> to \<open>offset + fine_range\<close>, with \<open>offset\<close> 3.5 and
  \<open>fine_range\<close> 2.5 coarse steps, as the claim says; but the branch does not re-command
  the large coil: it raises AttributeError. With a coarse step of 0.001 (gain 10 T/A,
  large coil at 0 A): a delta of 3.5 steps is inside the band and the call returns with
  the supply untouched; a delta of 6.1 steps is outside, and the call raises with the
  supply and the cached field of the large coil untouched.
\<close>

theorem setField_band_test_and_missing_recommand:
  "(fst (setField rt x c) = Raised (AttributeError ''setcoil_field'')
      \<longleftrightarrow> outside_band (x - coil_field c) (35 / 10 * coarse_step c) (25 / 10 * coarse_step c))
   \<and> coarse_step (example_dual_coil 10 0) = 1 / 1000
   \<and> coil_field (example_dual_coil 10 0) = 0
   \<and> \<not> outside_band (35 / 10 * (1 / 1000)) (35 / 10 * (1 / 1000)) (25 / 10 * (1 / 1000))
   \<and> fst (setField scripted (35 / 10 * (1 / 1000)) (example_dual_coil 10 0)) = Returned ()
   \<and> coil_supply (snd (setField scripted (35 / 10 * (1 / 1000)) (example_dual_coil 10 0)))
       = coil_supply (example_dual_coil 10 0)
   \<and> outside_band (61 / 10 * (1 / 1000)) (35 / 10 * (1 / 1000)) (25 / 10 * (1 / 1000))
   \<and> fst (setField scripted (61 / 10 * (1 / 1000)) (example_dual_coil 10 0))
       = Raised (AttributeError ''setcoil_field'')
   \<and> coil_supply (snd (setField scripted (61 / 10 * (1 / 1000)) (example_dual_coil 10 0)))
       = coil_supply (example_dual_coil 10 0)
   \<and> coil_field (snd (setField scripted (61 / 10 * (1 / 1000)) (example_dual_coil 10 0))) = 0"
proof -
  have step: "coarse_step (example_dual_coil 10 0) = 1 / 1000"
    and field: "coil_field (example_dual_coil 10 0) = 0"
    and gain: "smallCoilFieldGain (example_dual_coil 10 0) \<noteq> 0"
    by (simp_all add: coarse_step_def example_dual_coil_def)
  have inside: "\<not> outside_band (35 / 10 * (1 / 1000) - coil_field (example_dual_coil 10 0))
      (35 / 10 * coarse_step (example_dual_coil 10 0))
      (25 / 10 * coarse_step (example_dual_coil 10 0))"
    unfolding step field by (simp add: outside_band_def)
  have outside: "outside_band (61 / 10 * (1 / 1000) - coil_field (example_dual_coil 10 0))
      (35 / 10 * coarse_step (example_dual_coil 10 0))
      (25 / 10 * coarse_step (example_dual_coil 10 0))"
    unfolding step field by (simp add: outside_band_def)
  show ?thesis
    using inside outside
    unfolding setField_raises_iff setField_inside [OF inside] setField_outside [OF outside]
    by (simp add: step field gain)
qed

text \<open>
  Claim C2, on the code. For every call of \<^verbatim>\<open>setField\<close> whose first delta lies outside the
  band, the call does not complete: it raises AttributeError at the call that should
  re-command the large coil. The large coil is not re-commanded (its supply, current and
  cached field are as before), the correction coil is not set (the DAC voltage is as
  before) and the net field is not recorded; only \<^verbatim>\<open>smallFieldValue\<close> has changed, to
  the first delta.
\<close>

theorem setField_outside_band_raises:
  assumes "outside_band (x - coil_field c) (35 / 10 * coarse_step c) (25 / 10 * coarse_step c)"
  shows "setField rt x c
       = (Raised (AttributeError ''setcoil_field''),
          c\<lparr>smallFieldValue := Some (x - coil_field c)\<rparr>)"
  using assms by (rule setField_outside)

text \<open>The theorem at the end-to-end example of the spec: gain 0.05 T/A, large coil at 0 A,
  target 0.05 T.\<close>

theorem setField_outside_band_raises_witness:
  "outside_band (1 / 20 - coil_field (example_dual_coil (1 / 20) 0))
      (35 / 10 * coarse_step (example_dual_coil (1 / 20) 0))
      (25 / 10 * coarse_step (example_dual_coil (1 / 20) 0))
   \<and> fst (setField scripted (1 / 20) (example_dual_coil (1 / 20) 0))
       = Raised (AttributeError ''setcoil_field'')
   \<and> sent (coil_supply (snd (setField scripted (1 / 20) (example_dual_coil (1 / 20) 0))))
       = sent (coil_supply (example_dual_coil (1 / 20) 0))
   \<and> current (snd (setField scripted (1 / 20) (example_dual_coil (1 / 20) 0))) = 0
   \<and> coil_field (snd (setField scripted (1 / 20) (example_dual_coil (1 / 20) 0))) = 0
   \<and> dacVoltage (snd (setField scripted (1 / 20) (example_dual_coil (1 / 20) 0))) = 0
   \<and> net_coil_field (snd (setField scripted (1 / 20) (example_dual_coil (1 / 20) 0))) = 0
   \<and> smallFieldValue (snd (setField scripted (1 / 20) (example_dual_coil (1 / 20) 0)))
       = Some (1 / 20)"
proof -
  have outside: "outside_band (1 / 20 - coil_field (example_dual_coil (1 / 20) 0))
      (35 / 10 * coarse_step (example_dual_coil (1 / 20) 0))
      (25 / 10 * coarse_step (example_dual_coil (1 / 20) 0))"
    by (simp add: outside_band_def coarse_step_def example_dual_coil_def)
  show ?thesis
    using outside unfolding setField_outside_band_raises [OF outside, of scripted]
    by (simp add: example_dual_coil_def)
qed





end
